theory Spec2Isabelle
  imports Main
begin

section \<open>The chat widget of static/chat.js\<close>

text \<open>
  The script is one \<open>DOMContentLoaded\<close> handler that declares the variable
  \<open>sessionId\<close>, registers event listeners on the form, the text area and the
  quick-question buttons, and defines the helpers \<open>addMessage\<close>,
  \<open>showTypingIndicator\<close>, \<open>removeTypingIndicator\<close>, \<open>getCurrentTime\<close> and
  \<open>scrollToBottom\<close>. Every listener is modelled as a function on an explicit state
  holding what the listeners read and write. The asynchronous submit listener is split
  at its \<open>await\<close>: \<open>submit_handler\<close> is the part that runs inside the event, up to
  the call of \<open>fetch\<close>, and \<open>fetch_settled\<close> is the continuation that runs when the
  request has settled.
\<close>

subsection \<open>JavaScript values\<close>

text \<open>
  A JavaScript string is a sequence of UTF-16 code units; a code unit is a natural
  number below 65536. String literals of the source are ASCII and are written with
  \<open>utf16\<close>.
\<close>

type_synonym jstring = "nat list"

definition utf16 :: "string \<Rightarrow> jstring" where
  "utf16 s = map of_char s"

text \<open>
  The values the script reads from the parsed response and keeps in \<open>sessionId\<close>:
  \<open>undefined\<close> (a property that is absent), \<open>null\<close>, or a string.
\<close>

datatype jsval = Undefined | Null | Str jstring

text \<open>Truthiness, as tested by \<open>if (v)\<close> and \<open>v || w\<close>: the empty string is falsy.\<close>

fun truthy :: "jsval \<Rightarrow> bool" where
  "truthy Undefined = False"
| "truthy Null = False"
| "truthy (Str s) = (s \<noteq> [])"

text \<open>The string a value is converted to by \<open>FormData.append\<close> and \<open>localStorage.setItem\<close>.\<close>

fun to_jstring :: "jsval \<Rightarrow> jstring" where
  "to_jstring Undefined = utf16 ''undefined''"
| "to_jstring Null = utf16 ''null''"
| "to_jstring (Str s) = s"

text \<open>
  \<open>String.prototype.trim\<close> removes white space and line terminators from both ends:
  TAB, LF, VT, FF, CR, SP, NBSP, U+1680, U+2000 to U+200A, U+2028, U+2029, U+202F,
  U+205F, U+3000 and U+FEFF.
\<close>

definition is_white_space :: "nat \<Rightarrow> bool" where
  "is_white_space u =
     (u \<in> set [9, 10, 11, 12, 13, 32, 160, 5760, 8232, 8233, 8239, 8287, 12288, 65279]
      \<or> (8192 \<le> u \<and> u \<le> 8202))"

definition trim :: "jstring \<Rightarrow> jstring" where
  "trim s = rev (dropWhile is_white_space (rev (dropWhile is_white_space s)))"

text \<open>
  The arguments of \<open>FormData.append\<close> are scalar value strings: on the way in, every
  surrogate code unit that is not part of a pair (a leading surrogate U+D800 to U+DBFF
  followed by a trailing surrogate U+DC00 to U+DFFF) is replaced by U+FFFD.
\<close>

definition is_lead_surrogate :: "nat \<Rightarrow> bool" where
  "is_lead_surrogate u = (55296 \<le> u \<and> u \<le> 56319)"

definition is_trail_surrogate :: "nat \<Rightarrow> bool" where
  "is_trail_surrogate u = (56320 \<le> u \<and> u \<le> 57343)"

fun to_usv :: "jstring \<Rightarrow> jstring" where
  "to_usv [] = []"
| "to_usv [c] = (if is_lead_surrogate c \<or> is_trail_surrogate c then [65533] else [c])"
| "to_usv (c # d # cs) =
     (if is_lead_surrogate c
      then (if is_trail_surrogate d then c # d # to_usv cs else 65533 # to_usv (d # cs))
      else if is_trail_surrogate c then 65533 # to_usv (d # cs)
      else c # to_usv (d # cs))"

subsection \<open>The page\<close>

datatype sender = User | Bot

datatype avatar = BustInSilhouette | Seedling

text \<open>
  \<open>marked.parse\<close> is an external library. The markup it returns for a source text is
  kept symbolic: \<open>MarkedParse text\<close> stands for the result of \<open>marked.parse(text)\<close>.
\<close>

datatype markup = MarkedParse jstring

text \<open>
  The \<open>message-text\<close> element of a bubble is filled either through \<open>textContent\<close>
  (the string is shown literally) or through \<open>innerHTML\<close> (the string is parsed as
  markup).
\<close>

datatype message_text = TextContent jstring | InnerHTML markup

text \<open>
  The children of \<open>chatMessages\<close>: a message bubble with its sender class, avatar,
  text element and \<open>message-time\<close> text, or the element with id \<open>typing-indicator\<close>.
\<close>

datatype node = MessageDiv sender avatar message_text jstring | TypingDiv

datatype css_height = Unset | Auto | Px nat

text \<open>
  A call of \<open>fetch\<close>: the URL, the method and the entries of the \<open>FormData\<close> object
  passed as body, in order. How the browser encodes the entries on the wire is not
  part of the script.
\<close>

record request =
  url :: jstring
  http_method :: jstring
  body :: "(jstring \<times> jstring) list"

text \<open>
  The object \<open>response.json()\<close> resolves to. Its fields are typed as the wire protocol
  gives them: \<open>response\<close> is a string, \<open>session_id\<close> and \<open>timestamp\<close> may be absent.
\<close>

record chat_data =
  response :: jstring
  session_id :: jsval
  timestamp :: jsval

text \<open>
  An HTTP response as the script sees it: the status, and the result of
  \<open>response.json()\<close>, which is \<open>None\<close> when the body is not valid JSON (the promise
  rejects with a \<open>SyntaxError\<close>).
\<close>

record http_response =
  status :: nat
  json_body :: "chat_data option"

text \<open>
  How the promise returned by \<open>fetch\<close> settles: it rejects when the network fails,
  and resolves with the response for every HTTP status.
\<close>

datatype fetch_outcome = Rejected | Resolved http_response

datatype js_error = NetworkError | SyntaxError

record state =
  sessionId :: jsval
  localStorage :: "jstring \<rightharpoonup> jstring"
  userInput_value :: jstring
  userInput_height :: css_height
  sendButton_disabled :: bool
  chatMessages :: "node list"
  fetched :: "request list"
  console_error :: "js_error list"
  in_flight :: nat

text \<open>
  \<open>fetched\<close> is the history of the calls of \<open>fetch\<close>, \<open>console_error\<close> the history
  of the calls of \<open>console.error\<close>, and \<open>in_flight\<close> the number of submit listeners
  suspended at their \<open>await\<close>.
\<close>

definition chatSessionId :: jstring where
  "chatSessionId = utf16 ''chatSessionId''"

definition apology :: jstring where
  "apology = utf16 ''Sorry, I encountered an error. Please try again.''"

subsection \<open>The helpers\<close>

text \<open>
  \<open>addMessage(text, sender, timestamp = null)\<close>; the parameter \<open>timestamp\<close> is
  written \<open>timestamp0\<close>. The argument \<open>clock\<close> is the string \<open>getCurrentTime()\<close>
  returns at the moment of the call. \<open>scrollToBottom\<close> only moves
  the scroll position and is left out.
\<close>

definition addMessage :: "jstring \<Rightarrow> sender \<Rightarrow> jsval \<Rightarrow> jstring \<Rightarrow> state \<Rightarrow> state" where
  "addMessage text sender timestamp0 clock st =
     st\<lparr>chatMessages := chatMessages st @
       [MessageDiv sender
          (if sender = User then BustInSilhouette else Seedling)
          (if sender = Bot then InnerHTML (MarkedParse text) else TextContent text)
          (if truthy timestamp0 then to_jstring timestamp0 else clock)]\<rparr>"

definition showTypingIndicator :: "state \<Rightarrow> state" where
  "showTypingIndicator st = st\<lparr>chatMessages := chatMessages st @ [TypingDiv]\<rparr>"

text \<open>
  \<open>document.getElementById\<close> returns the first element with the id, and nothing is
  removed when there is none.
\<close>

definition removeTypingIndicator :: "state \<Rightarrow> state" where
  "removeTypingIndicator st = st\<lparr>chatMessages := remove1 TypingDiv (chatMessages st)\<rparr>"

subsection \<open>The listeners\<close>

text \<open>The body of the \<open>DOMContentLoaded\<close> listener that is not a registration.\<close>

definition DOMContentLoaded :: "state \<Rightarrow> state" where
  "DOMContentLoaded st =
     st\<lparr>sessionId :=
          (case localStorage st chatSessionId of
             None \<Rightarrow> Null
           | Some s \<Rightarrow> if truthy (Str s) then Str s else Null),
        sendButton_disabled := True\<rparr>"

text \<open>
  The two \<open>input\<close> listeners of the text area; \<open>scrollHeight\<close> is the height the
  layout reports once the style height is \<open>auto\<close>.
\<close>

definition input_listeners :: "nat \<Rightarrow> state \<Rightarrow> state" where
  "input_listeners scrollHeight st =
     st\<lparr>userInput_height := Px (min scrollHeight 120),
        sendButton_disabled := (trim (userInput_value st) = [])\<rparr>"

text \<open>
  The submit listener up to the call of \<open>fetch\<close>. The \<open>try\<close> block begins before
  the form data is built, but nothing up to the call of \<open>fetch\<close> throws.
\<close>

definition submit_handler :: "jstring \<Rightarrow> state \<Rightarrow> state" where
  "submit_handler clock st =
     (let message = trim (userInput_value st) in
      if message = [] then st
      else
        let st1 = addMessage message User Null clock st;
            st2 = st1\<lparr>userInput_value := [], userInput_height := Auto\<rparr>;
            st3 = showTypingIndicator st2;
            formData = [(utf16 ''user_input'', to_usv message)] @
              (if truthy (sessionId st3)
               then [(utf16 ''session_id'', to_usv (to_jstring (sessionId st3)))] else [])
        in st3\<lparr>fetched := fetched st3 @
                 [\<lparr>url = utf16 ''/api/chat'', http_method = utf16 ''POST'', body = formData\<rparr>],
               in_flight := Suc (in_flight st3)\<rparr>)"

text \<open>
  The rest of the \<open>try\<close> block, from the settling of \<open>fetch\<close> on. \<open>Inl\<close> is the
  exception thrown by \<open>await fetch(...)\<close> or \<open>await response.json()\<close>; both happen
  before the block writes anything. The status of the response is not read.
  \<open>localStorage.setItem\<close> is taken to succeed, and \<open>marked.parse\<close> to return for
  every string.
\<close>

definition try_block :: "fetch_outcome \<Rightarrow> jstring \<Rightarrow> state \<Rightarrow> js_error + state" where
  "try_block outcome clock st =
     (case outcome of
        Rejected \<Rightarrow> Inl NetworkError
      | Resolved resp \<Rightarrow>
          (case json_body resp of
             None \<Rightarrow> Inl SyntaxError
           | Some data \<Rightarrow>
               let st1 = (if truthy (session_id data)
                          then st\<lparr>sessionId := session_id data,
                                 localStorage := (localStorage st)
                                   (chatSessionId \<mapsto> to_jstring (session_id data))\<rparr>
                          else st);
                   st2 = removeTypingIndicator st1
               in Inr (addMessage (response data) Bot (timestamp data) clock st2)))"

definition catch_block :: "js_error \<Rightarrow> jstring \<Rightarrow> state \<Rightarrow> state" where
  "catch_block err clock st =
     addMessage apology Bot Null clock
       (removeTypingIndicator (st\<lparr>console_error := console_error st @ [err]\<rparr>))"

definition fetch_settled :: "fetch_outcome \<Rightarrow> jstring \<Rightarrow> state \<Rightarrow> state" where
  "fetch_settled outcome clock st =
     (case try_block outcome clock st of
        Inl err \<Rightarrow> catch_block err clock st
      | Inr st' \<Rightarrow> st')"

text \<open>
  The click listener of a quick-question button. \<open>getAttribute\<close> returns \<open>null\<close> for a
  missing attribute, and assigning \<open>null\<close> to \<open>value\<close> gives the empty string.
  \<open>dispatchEvent\<close> runs the submit listener synchronously.
\<close>

definition quick_question_click :: "jstring option \<Rightarrow> jstring \<Rightarrow> state \<Rightarrow> state" where
  "quick_question_click question clock st =
     submit_handler clock
       (st\<lparr>userInput_value := (case question of None \<Rightarrow> [] | Some q \<Rightarrow> q)\<rparr>)"

text \<open>The \<open>keydown\<close> listener of the text area.\<close>

definition keydown_listener :: "jstring \<Rightarrow> bool \<Rightarrow> jstring \<Rightarrow> state \<Rightarrow> state" where
  "keydown_listener key shiftKey clock st =
     (if key = utf16 ''Enter'' \<and> \<not> shiftKey then submit_handler clock st else st)"

subsection \<open>Runs of the page\<close>

text \<open>
  What can happen to the page: it is loaded (with the children of \<open>chatMessages\<close> and
  the content of the text area that the document has), the user edits the text area,
  a submit event reaches the form, a key goes down in the text area, a quick-question
  button is clicked, or a pending request settles. Events that call
  \<open>getCurrentTime\<close> carry the string it returns.
\<close>

datatype event =
    PageLoad "node list" jstring
  | Input jstring nat
  | Submit jstring
  | KeyDown jstring bool jstring
  | QuickQuestion "jstring option" jstring
  | FetchSettled fetch_outcome jstring

text \<open>
  Loading the page replaces the document and abandons the suspended listeners of the
  old one; the storage survives, and so do the two histories. A settling is delivered
  only to a suspended listener.
\<close>

fun handle :: "event \<Rightarrow> state \<Rightarrow> state" where
  "handle (PageLoad html_messages html_input) st =
     DOMContentLoaded
       (st\<lparr>userInput_value := html_input, userInput_height := Unset,
           chatMessages := html_messages, in_flight := 0\<rparr>)"
| "handle (Input v scrollHeight) st = input_listeners scrollHeight (st\<lparr>userInput_value := v\<rparr>)"
| "handle (Submit clock) st = submit_handler clock st"
| "handle (KeyDown key shiftKey clock) st = keydown_listener key shiftKey clock st"
| "handle (QuickQuestion question clock) st = quick_question_click question clock st"
| "handle (FetchSettled outcome clock) st =
     (if in_flight st = 0 then st
      else fetch_settled outcome clock (st\<lparr>in_flight := in_flight st - 1\<rparr>))"

fun run :: "event list \<Rightarrow> state \<Rightarrow> state" where
  "run [] st = st"
| "run (e # es) st = run es (handle e st)"

text \<open>
  A browser that has never loaded the page: nothing is stored, and the variable
  \<open>sessionId\<close> does not exist yet.
\<close>

definition fresh_browser :: state where
  "fresh_browser =
     \<lparr>sessionId = Undefined, localStorage = Map.empty, userInput_value = [],
      userInput_height = Unset, sendButton_disabled = False, chatMessages = [],
      fetched = [], console_error = [], in_flight = 0\<rparr>"

section \<open>Notions used to state the properties\<close>

subsection \<open>Reading the page\<close>

fun is_user_bubble :: "node \<Rightarrow> bool" where
  "is_user_bubble (MessageDiv s a t c) = (s = User)"
| "is_user_bubble TypingDiv = False"

text \<open>The markup that has been assigned to \<open>innerHTML\<close> of a message text, in page order.\<close>

fun markup_of :: "node list \<Rightarrow> markup list" where
  "markup_of [] = []"
| "markup_of (MessageDiv s a (InnerHTML m) c # ns) = m # markup_of ns"
| "markup_of (MessageDiv s a (TextContent t) c # ns) = markup_of ns"
| "markup_of (TypingDiv # ns) = markup_of ns"

text \<open>
  A bubble whose rendering fits its sender: literal text for the user, markup for the
  bot.
\<close>

fun well_rendered :: "node \<Rightarrow> bool" where
  "well_rendered (MessageDiv User a (TextContent t) c) = True"
| "well_rendered (MessageDiv Bot a (InnerHTML m) c) = True"
| "well_rendered (MessageDiv User a (InnerHTML m) c) = False"
| "well_rendered (MessageDiv Bot a (TextContent t) c) = False"
| "well_rendered TypingDiv = True"

subsection \<open>Reading requests and responses\<close>

text \<open>The status codes outside 200 to 299, for which \<open>response.ok\<close> is false.\<close>

definition non_2xx :: "nat \<Rightarrow> bool" where
  "non_2xx n = (n < 200 \<or> 299 < n)"

text \<open>The exchanges in which an \<open>await\<close> of the \<open>try\<close> block throws.\<close>

fun request_failed :: "fetch_outcome \<Rightarrow> bool" where
  "request_failed Rejected = True"
| "request_failed (Resolved r) = (json_body r = None)"

fun thrown :: "fetch_outcome \<Rightarrow> js_error" where
  "thrown Rejected = NetworkError"
| "thrown (Resolved r) = SyntaxError"

text \<open>A string without unpaired surrogate.\<close>

fun no_lone_surrogate :: "jstring \<Rightarrow> bool" where
  "no_lone_surrogate [] = True"
| "no_lone_surrogate [c] = (if is_lead_surrogate c \<or> is_trail_surrogate c then False else True)"
| "no_lone_surrogate (c # d # cs) =
     (if is_lead_surrogate c then is_trail_surrogate d \<and> no_lone_surrogate cs
      else if is_trail_surrogate c then False
      else no_lone_surrogate (d # cs))"

text \<open>The \<open>session_id\<close> a settling delivers to the script, if any.\<close>

fun issued_token :: "event \<Rightarrow> jsval" where
  "issued_token (FetchSettled (Resolved r) clock) =
     (case json_body r of None \<Rightarrow> Undefined | Some d \<Rightarrow> session_id d)"
| "issued_token e = Undefined"

text \<open>An event that does not make the server issue a token different from \<open>S\<close>.\<close>

definition keeps_token :: "jstring \<Rightarrow> event \<Rightarrow> bool" where
  "keeps_token S e = (if truthy (issued_token e) then issued_token e = Str S else True)"

text \<open>The \<open>session_id\<close> entries of a request's form data.\<close>

definition session_entries :: "request \<Rightarrow> jstring list" where
  "session_entries r = map snd (filter (\<lambda>kv. fst kv = utf16 ''session_id'') (body r))"

definition sends_token :: "jstring \<Rightarrow> request \<Rightarrow> bool" where
  "sends_token S r = (session_entries r = [S])"

text \<open>The variable \<open>sessionId\<close> and the storage entry say the same.\<close>

definition agree :: "state \<Rightarrow> bool" where
  "agree st =
     (case sessionId st of
        Undefined \<Rightarrow> False
      | Null \<Rightarrow> localStorage st chatSessionId = None
      | Str s \<Rightarrow> localStorage st chatSessionId = Some s)"

fun is_page_load :: "event \<Rightarrow> bool" where
  "is_page_load (PageLoad html_messages html_input) = True"
| "is_page_load e = False"

text \<open>The script holds the token \<open>S\<close>, in the variable and in the storage.\<close>

definition holds_token :: "jstring \<Rightarrow> state \<Rightarrow> bool" where
  "holds_token S st = (sessionId st = Str S \<and> localStorage st chatSessionId = Some S)"

text \<open>A request that carries no empty \<open>session_id\<close>.\<close>

definition no_empty_token :: "request \<Rightarrow> bool" where
  "no_empty_token r = ([] \<notin> set (session_entries r))"

text \<open>Neither the storage nor a request sent so far holds an empty token.\<close>

definition nonempty_tokens :: "state \<Rightarrow> bool" where
  "nonempty_tokens st =
     (localStorage st chatSessionId \<noteq> Some [] \<and> list_all no_empty_token (fetched st))"

text \<open>They agree, and the entry is not the empty string.\<close>

definition sane_storage :: "state \<Rightarrow> bool" where
  "sane_storage st = (agree st \<and> localStorage st chatSessionId \<noteq> Some [])"

subsection \<open>quickSubmit as the specification words it\<close>

text \<open>
  These two definitions follow the specification, not the source: \<open>quickSubmit\<close> is
  populating the input with the preset text and then invoking submit.
\<close>

definition populate_input :: "jstring \<Rightarrow> state \<Rightarrow> state" where
  "populate_input presetText st = st\<lparr>userInput_value := presetText\<rparr>"

definition quickSubmit :: "jstring \<Rightarrow> jstring \<Rightarrow> state \<Rightarrow> state" where
  "quickSubmit presetText clock st = handle (Submit clock) (populate_input presetText st)"

subsection \<open>Concrete runs\<close>

text \<open>The page just loaded in a fresh browser, with two blanks typed.\<close>

definition whitespace_state :: state where
  "whitespace_state = run [PageLoad [] [], Input (utf16 ''  '') 24] fresh_browser"

text \<open>The same with \<open>" hi "\<close> typed, and the state once that is submitted.\<close>

definition greeting_state :: state where
  "greeting_state = run [PageLoad [] [], Input (utf16 '' hi '') 24] fresh_browser"

definition pending_state :: state where
  "pending_state = handle (Submit (utf16 ''10:00 AM'')) greeting_state"

text \<open>A first reply that issues the token \<open>abc123\<close>, and the state after it.\<close>

definition first_reply :: http_response where
  "first_reply =
     \<lparr>status = 200,
      json_body = Some \<lparr>response = utf16 ''Hello'', session_id = Str (utf16 ''abc123''),
                        timestamp = Undefined\<rparr>\<rparr>"

definition session_state :: state where
  "session_state = handle (FetchSettled (Resolved first_reply) (utf16 ''10:01 AM'')) pending_state"

text \<open>A second message submitted in that session, its request pending.\<close>

definition session_pending_state :: state where
  "session_pending_state =
     run [Input (utf16 ''more'') 24, Submit (utf16 ''10:02 AM'')] session_state"

text \<open>Replies with status 500 whose body is JSON, and replies without a usable token.\<close>

definition error_reply :: http_response where
  "error_reply =
     \<lparr>status = 500,
      json_body = Some \<lparr>response = utf16 ''Internal Server Error'', session_id = Undefined,
                        timestamp = Undefined\<rparr>\<rparr>"

definition error_reply_with_token :: http_response where
  "error_reply_with_token =
     \<lparr>status = 500,
      json_body = Some \<lparr>response = utf16 ''Internal Server Error'',
                        session_id = Str (utf16 ''xyz789''), timestamp = Undefined\<rparr>\<rparr>"

definition error_page :: http_response where
  "error_page = \<lparr>status = 500, json_body = None\<rparr>"

definition reply_without_token :: http_response where
  "reply_without_token =
     \<lparr>status = 200,
      json_body = Some \<lparr>response = utf16 ''Hello again'', session_id = Undefined,
                        timestamp = Str (utf16 ''10:03 AM'')\<rparr>\<rparr>"

text \<open>
  A reply whose token begins with an unpaired leading surrogate (the JSON text
  \<open>"\\ud800a"\<close>), and the state after it.
\<close>

definition reply_with_surrogate_token :: http_response where
  "reply_with_surrogate_token =
     \<lparr>status = 200,
      json_body = Some \<lparr>response = utf16 ''Hello'', session_id = Str [55296, 97],
                        timestamp = Undefined\<rparr>\<rparr>"

definition surrogate_session_state :: state where
  "surrogate_session_state =
     handle (FetchSettled (Resolved reply_with_surrogate_token) (utf16 ''10:01 AM''))
       pending_state"

text \<open>A browser whose storage holds the empty string under \<open>chatSessionId\<close>.\<close>

definition stale_browser :: state where
  "stale_browser = fresh_browser\<lparr>localStorage := [chatSessionId \<mapsto> []]\<rparr>"

definition reply_with_empty_token :: http_response where
  "reply_with_empty_token =
     \<lparr>status = 200,
      json_body = Some \<lparr>response = utf16 ''Hello'', session_id = Str [],
                        timestamp = Undefined\<rparr>\<rparr>"

section \<open>What the listeners compute\<close>

subsection \<open>Trimming\<close>

lemma dropWhile_rev_empty: "(dropWhile P (rev (dropWhile P s)) = []) = list_all P s"
proof (induction s)
  case Nil
  then show ?case by simp
next
  case (Cons a s)
  show ?case
  proof (cases "P a")
    case True
    with Cons show ?thesis by simp
  next
    case False
    then show ?thesis by (simp add: dropWhile_append)
  qed
qed

text \<open>Trimming leaves nothing exactly when every code unit is white space.\<close>

lemma trim_empty_iff: "(trim s = []) = list_all is_white_space s"
  by (simp only: trim_def rev_is_Nil_conv dropWhile_rev_empty)

subsection \<open>Scalar value strings\<close>

lemma to_usv_Nil_iff: "(to_usv s = []) = (s = [])"
  by (cases s rule: to_usv.cases) simp_all

text \<open>The conversion leaves a string without unpaired surrogate as it is.\<close>

lemma to_usv_no_lone_surrogate: "no_lone_surrogate s \<Longrightarrow> to_usv s = s"
  by (induction s rule: to_usv.induct) (simp_all split: if_splits)

subsection \<open>The submit listener in closed form\<close>

lemma submit_handler_empty:
  "trim (userInput_value st) = [] \<Longrightarrow> submit_handler clock st = st"
  by (simp add: submit_handler_def)

lemma submit_handler_nonempty:
  "trim (userInput_value st) \<noteq> [] \<Longrightarrow>
   submit_handler clock st =
     st\<lparr>userInput_value := [], userInput_height := Auto,
        chatMessages := chatMessages st @
          [MessageDiv User BustInSilhouette (TextContent (trim (userInput_value st))) clock,
           TypingDiv],
        fetched := fetched st @
          [\<lparr>url = utf16 ''/api/chat'', http_method = utf16 ''POST'',
            body = (utf16 ''user_input'', to_usv (trim (userInput_value st))) #
              (if truthy (sessionId st)
               then [(utf16 ''session_id'', to_usv (to_jstring (sessionId st)))] else [])\<rparr>],
        in_flight := Suc (in_flight st)\<rparr>"
  by (simp add: submit_handler_def addMessage_def showTypingIndicator_def Let_def)

lemma fetch_settled_rejected:
  "fetch_settled Rejected clock st =
     st\<lparr>chatMessages := remove1 TypingDiv (chatMessages st) @
          [MessageDiv Bot Seedling (InnerHTML (MarkedParse apology)) clock],
        console_error := console_error st @ [NetworkError]\<rparr>"
  by (simp add: fetch_settled_def try_block_def catch_block_def addMessage_def
      removeTypingIndicator_def)

lemma fetch_settled_malformed:
  "json_body r = None \<Longrightarrow>
   fetch_settled (Resolved r) clock st =
     st\<lparr>chatMessages := remove1 TypingDiv (chatMessages st) @
          [MessageDiv Bot Seedling (InnerHTML (MarkedParse apology)) clock],
        console_error := console_error st @ [SyntaxError]\<rparr>"
  by (simp add: fetch_settled_def try_block_def catch_block_def addMessage_def
      removeTypingIndicator_def)

lemma fetch_settled_data:
  "json_body r = Some d \<Longrightarrow>
   fetch_settled (Resolved r) clock st =
     (if truthy (session_id d)
      then st\<lparr>sessionId := session_id d,
             localStorage := (localStorage st)(chatSessionId \<mapsto> to_jstring (session_id d)),
             chatMessages := remove1 TypingDiv (chatMessages st) @
               [MessageDiv Bot Seedling (InnerHTML (MarkedParse (response d)))
                  (if truthy (timestamp d) then to_jstring (timestamp d) else clock)]\<rparr>
      else st\<lparr>chatMessages := remove1 TypingDiv (chatMessages st) @
               [MessageDiv Bot Seedling (InnerHTML (MarkedParse (response d)))
                  (if truthy (timestamp d) then to_jstring (timestamp d) else clock)]\<rparr>)"
  by (simp add: fetch_settled_def try_block_def addMessage_def removeTypingIndicator_def
      Let_def)

subsection \<open>Facts about the page\<close>

lemma filter_user_remove1_typing:
  "filter is_user_bubble (remove1 TypingDiv ns) = filter is_user_bubble ns"
  by (induction ns) auto

lemma markup_of_append: "markup_of (xs @ ys) = markup_of xs @ markup_of ys"
  by (induction xs rule: markup_of.induct) auto

lemma markup_of_remove1_typing: "markup_of (remove1 TypingDiv ns) = markup_of ns"
  by (induction ns rule: markup_of.induct) auto

lemma chatMessages_fetch_settled:
  "\<exists>t c. chatMessages (fetch_settled outcome clock st) =
     remove1 TypingDiv (chatMessages st) @ [MessageDiv Bot Seedling (InnerHTML (MarkedParse t)) c]"
proof (cases outcome)
  case Rejected
  then show ?thesis by (simp add: fetch_settled_rejected)
next
  case (Resolved r)
  show ?thesis
  proof (cases "json_body r")
    case None
    with Resolved show ?thesis by (simp add: fetch_settled_malformed)
  next
    case (Some d)
    with Resolved show ?thesis by (simp add: fetch_settled_data)
  qed
qed

lemma well_rendered_remove1:
  "list_all well_rendered ns \<Longrightarrow> list_all well_rendered (remove1 n ns)"
  by (induction ns) auto

lemma submit_handler_well_rendered:
  "list_all well_rendered (chatMessages st) \<Longrightarrow>
   list_all well_rendered (chatMessages (submit_handler clock st))"
  by (cases "trim (userInput_value st) = []")
     (simp_all add: submit_handler_empty submit_handler_nonempty)

lemma fetch_settled_well_rendered:
  assumes "list_all well_rendered (chatMessages st)"
  shows "list_all well_rendered (chatMessages (fetch_settled outcome clock st))"
proof -
  obtain t c where "chatMessages (fetch_settled outcome clock st) =
     remove1 TypingDiv (chatMessages st) @ [MessageDiv Bot Seedling (InnerHTML (MarkedParse t)) c]"
    using chatMessages_fetch_settled by blast
  with assms show ?thesis by (simp add: well_rendered_remove1)
qed

lemma handle_well_rendered:
  assumes "list_all well_rendered (chatMessages st)" and "\<not> is_page_load e"
  shows "list_all well_rendered (chatMessages (handle e st))"
proof (cases e)
  case (PageLoad ms i)
  with assms show ?thesis by simp
next
  case (Input v h)
  with assms show ?thesis by (simp add: input_listeners_def)
next
  case (Submit c)
  with assms show ?thesis by (simp add: submit_handler_well_rendered)
next
  case (KeyDown k sh c)
  with assms show ?thesis by (simp add: keydown_listener_def submit_handler_well_rendered)
next
  case (QuickQuestion q c)
  with assms show ?thesis
    by (simp add: quick_question_click_def submit_handler_well_rendered)
next
  case (FetchSettled outcome c)
  with assms show ?thesis by (simp add: fetch_settled_well_rendered)
qed

subsection \<open>The concrete runs in closed form\<close>

lemma trim_blanks: "trim (utf16 ''  '') = []"
  by (simp add: utf16_def trim_def is_white_space_def)

lemma trim_hi: "trim (utf16 '' hi '') = utf16 ''hi''"
  by (simp add: utf16_def trim_def is_white_space_def)

lemma trim_more: "trim (utf16 ''more'') = utf16 ''more''"
  by (simp add: utf16_def trim_def is_white_space_def)

lemma utf16_nonempty: "utf16 (c # cs) \<noteq> []"
  by (simp add: utf16_def)

lemma no_lone_surrogate_hi: "no_lone_surrogate (utf16 ''hi'')"
  by (simp add: utf16_def is_lead_surrogate_def is_trail_surrogate_def)

lemma no_lone_surrogate_more: "no_lone_surrogate (utf16 ''more'')"
  by (simp add: utf16_def is_lead_surrogate_def is_trail_surrogate_def)

lemma no_lone_surrogate_abc123: "no_lone_surrogate (utf16 ''abc123'')"
  by (simp add: utf16_def is_lead_surrogate_def is_trail_surrogate_def)

lemmas to_usv_literals =
  to_usv_no_lone_surrogate [OF no_lone_surrogate_hi]
  to_usv_no_lone_surrogate [OF no_lone_surrogate_more]
  to_usv_no_lone_surrogate [OF no_lone_surrogate_abc123]

lemma whitespace_state_eq:
  "whitespace_state =
     \<lparr>sessionId = Null, localStorage = Map.empty, userInput_value = utf16 ''  '',
      userInput_height = Px 24, sendButton_disabled = True, chatMessages = [],
      fetched = [], console_error = [], in_flight = 0\<rparr>"
  by (simp add: whitespace_state_def fresh_browser_def DOMContentLoaded_def
      input_listeners_def trim_blanks)

lemma greeting_state_eq:
  "greeting_state =
     \<lparr>sessionId = Null, localStorage = Map.empty, userInput_value = utf16 '' hi '',
      userInput_height = Px 24, sendButton_disabled = False, chatMessages = [],
      fetched = [], console_error = [], in_flight = 0\<rparr>"
  by (simp add: greeting_state_def fresh_browser_def DOMContentLoaded_def
      input_listeners_def trim_hi utf16_nonempty)

lemma pending_state_eq:
  "pending_state =
     \<lparr>sessionId = Null, localStorage = Map.empty, userInput_value = [],
      userInput_height = Auto, sendButton_disabled = False,
      chatMessages =
        [MessageDiv User BustInSilhouette (TextContent (utf16 ''hi'')) (utf16 ''10:00 AM''),
         TypingDiv],
      fetched = [\<lparr>url = utf16 ''/api/chat'', http_method = utf16 ''POST'',
                  body = [(utf16 ''user_input'', utf16 ''hi'')]\<rparr>],
      console_error = [], in_flight = 1\<rparr>"
  by (simp add: pending_state_def greeting_state_eq submit_handler_nonempty trim_hi
      utf16_nonempty to_usv_literals)

lemma session_state_eq:
  "session_state =
     \<lparr>sessionId = Str (utf16 ''abc123''),
      localStorage = [chatSessionId \<mapsto> utf16 ''abc123''], userInput_value = [],
      userInput_height = Auto, sendButton_disabled = False,
      chatMessages =
        [MessageDiv User BustInSilhouette (TextContent (utf16 ''hi'')) (utf16 ''10:00 AM''),
         MessageDiv Bot Seedling (InnerHTML (MarkedParse (utf16 ''Hello'')))
           (utf16 ''10:01 AM'')],
      fetched = [\<lparr>url = utf16 ''/api/chat'', http_method = utf16 ''POST'',
                  body = [(utf16 ''user_input'', utf16 ''hi'')]\<rparr>],
      console_error = [], in_flight = 0\<rparr>"
  by (simp add: session_state_def pending_state_eq first_reply_def fetch_settled_data
      utf16_nonempty)

lemma session_pending_state_eq:
  "session_pending_state =
     \<lparr>sessionId = Str (utf16 ''abc123''),
      localStorage = [chatSessionId \<mapsto> utf16 ''abc123''], userInput_value = [],
      userInput_height = Auto, sendButton_disabled = False,
      chatMessages =
        [MessageDiv User BustInSilhouette (TextContent (utf16 ''hi'')) (utf16 ''10:00 AM''),
         MessageDiv Bot Seedling (InnerHTML (MarkedParse (utf16 ''Hello'')))
           (utf16 ''10:01 AM''),
         MessageDiv User BustInSilhouette (TextContent (utf16 ''more'')) (utf16 ''10:02 AM''),
         TypingDiv],
      fetched = [\<lparr>url = utf16 ''/api/chat'', http_method = utf16 ''POST'',
                  body = [(utf16 ''user_input'', utf16 ''hi'')]\<rparr>,
                 \<lparr>url = utf16 ''/api/chat'', http_method = utf16 ''POST'',
                  body = [(utf16 ''user_input'', utf16 ''more''),
                          (utf16 ''session_id'', utf16 ''abc123'')]\<rparr>],
      console_error = [], in_flight = 1\<rparr>"
  by (simp add: session_pending_state_def session_state_eq input_listeners_def
      submit_handler_nonempty trim_more utf16_nonempty to_usv_literals)

lemma surrogate_session_state_eq:
  "surrogate_session_state =
     \<lparr>sessionId = Str [55296, 97],
      localStorage = [chatSessionId \<mapsto> [55296, 97]], userInput_value = [],
      userInput_height = Auto, sendButton_disabled = False,
      chatMessages =
        [MessageDiv User BustInSilhouette (TextContent (utf16 ''hi'')) (utf16 ''10:00 AM''),
         MessageDiv Bot Seedling (InnerHTML (MarkedParse (utf16 ''Hello'')))
           (utf16 ''10:01 AM'')],
      fetched = [\<lparr>url = utf16 ''/api/chat'', http_method = utf16 ''POST'',
                  body = [(utf16 ''user_input'', utf16 ''hi'')]\<rparr>],
      console_error = [], in_flight = 0\<rparr>"
  by (simp add: surrogate_session_state_def pending_state_eq reply_with_surrogate_token_def
      fetch_settled_data)

subsection \<open>The token across events\<close>

lemma truthy_Str: "truthy v \<Longrightarrow> \<exists>s. v = Str s \<and> s \<noteq> []"
  by (cases v) auto

lemma session_id_field_distinct: "utf16 ''user_input'' \<noteq> utf16 ''session_id''"
  by (simp add: utf16_def)

lemma submit_handler_fetched:
  "fetched (submit_handler clock st) = fetched st \<or>
   (\<exists>m. fetched (submit_handler clock st) = fetched st @
      [\<lparr>url = utf16 ''/api/chat'', http_method = utf16 ''POST'',
        body = (utf16 ''user_input'', m) #
          (if truthy (sessionId st)
           then [(utf16 ''session_id'', to_usv (to_jstring (sessionId st)))] else [])\<rparr>])"
  by (cases "trim (userInput_value st) = []")
     (simp_all add: submit_handler_empty submit_handler_nonempty)

lemma submit_handler_token:
  "sessionId (submit_handler clock st) = sessionId st \<and>
   localStorage (submit_handler clock st) = localStorage st"
  by (cases "trim (userInput_value st) = []")
     (simp_all add: submit_handler_empty submit_handler_nonempty)

lemma fetch_settled_fetched: "fetched (fetch_settled outcome clock st) = fetched st"
  by (cases outcome; cases "json_body (case outcome of Resolved r \<Rightarrow> r)")
     (simp_all add: fetch_settled_rejected fetch_settled_malformed fetch_settled_data)

lemma fetch_settled_token:
  "(sessionId (fetch_settled outcome clock st) = sessionId st \<and>
    localStorage (fetch_settled outcome clock st) = localStorage st \<and>
    \<not> truthy (issued_token (FetchSettled outcome clock))) \<or>
   (\<exists>s. s \<noteq> [] \<and> issued_token (FetchSettled outcome clock) = Str s \<and>
        sessionId (fetch_settled outcome clock st) = Str s \<and>
        localStorage (fetch_settled outcome clock st) = (localStorage st)(chatSessionId \<mapsto> s))"
proof (cases outcome)
  case Rejected
  then show ?thesis by (simp add: fetch_settled_rejected)
next
  case (Resolved r)
  show ?thesis
  proof (cases "json_body r")
    case None
    with Resolved show ?thesis by (simp add: fetch_settled_malformed)
  next
    case (Some d)
    show ?thesis
    proof (cases "truthy (session_id d)")
      case True
      then obtain s where "session_id d = Str s" "s \<noteq> []"
        using truthy_Str by blast
      with Resolved Some show ?thesis by (simp add: fetch_settled_data)
    next
      case False
      with Resolved Some show ?thesis by (simp add: fetch_settled_data)
    qed
  qed
qed

lemma handle_holds_token:
  assumes "S \<noteq> []" "holds_token S st" "keeps_token S e"
  shows "holds_token S (handle e st)"
proof (cases e)
  case (PageLoad ms i)
  with assms show ?thesis by (simp add: holds_token_def DOMContentLoaded_def)
next
  case (Input v h)
  with assms show ?thesis by (simp add: holds_token_def input_listeners_def)
next
  case (Submit c)
  with assms show ?thesis by (simp add: holds_token_def submit_handler_token)
next
  case (KeyDown k sh c)
  with assms show ?thesis by (simp add: holds_token_def keydown_listener_def submit_handler_token)
next
  case (QuickQuestion q c)
  with assms show ?thesis
    by (simp add: holds_token_def quick_question_click_def submit_handler_token)
next
  case (FetchSettled outcome c)
  show ?thesis
  proof (cases "in_flight st = 0")
    case True
    with FetchSettled assms show ?thesis by simp
  next
    case False
    let ?s = "st\<lparr>in_flight := in_flight st - 1\<rparr>"
    from fetch_settled_token [of outcome c ?s] FetchSettled assms False
    show ?thesis
      by (auto simp: holds_token_def keeps_token_def)
  qed
qed

lemma handle_fetched_token:
  assumes "S \<noteq> []" "holds_token S st"
  shows "fetched (handle e st) = fetched st \<or>
         (\<exists>r. fetched (handle e st) = fetched st @ [r] \<and> sends_token (to_usv S) r)"
proof -
  have sub: "fetched (submit_handler c s) = fetched s \<or>
         (\<exists>r. fetched (submit_handler c s) = fetched s @ [r] \<and> sends_token (to_usv S) r)"
    if "sessionId s = Str S" for c s
    using submit_handler_fetched [of c s] that assms(1)
    by (auto simp: sends_token_def session_entries_def session_id_field_distinct)
  show ?thesis
  proof (cases e)
    case (PageLoad ms i)
    then show ?thesis by (simp add: DOMContentLoaded_def)
  next
    case (Input v h)
    then show ?thesis by (simp add: input_listeners_def)
  next
    case (Submit c)
    with sub [of st c] assms show ?thesis by (simp add: holds_token_def)
  next
    case (KeyDown k sh c)
    with sub [of st c] assms show ?thesis by (simp add: holds_token_def keydown_listener_def)
  next
    case (QuickQuestion q c)
    with sub [of "st\<lparr>userInput_value := (case q of None \<Rightarrow> [] | Some p \<Rightarrow> p)\<rparr>" c] assms
    show ?thesis by (simp add: holds_token_def quick_question_click_def)
  next
    case (FetchSettled outcome c)
    then show ?thesis by (simp add: fetch_settled_fetched)
  qed
qed

lemma run_holds_token:
  assumes "S \<noteq> []"
  shows "holds_token S st \<Longrightarrow> list_all (keeps_token S) es \<Longrightarrow>
         holds_token S (run es st) \<and>
         (\<exists>new. fetched (run es st) = fetched st @ new \<and> list_all (sends_token (to_usv S)) new)"
proof (induction es arbitrary: st)
  case Nil
  then show ?case by simp
next
  case (Cons e es)
  from Cons.prems have h: "holds_token S (handle e st)"
    using assms handle_holds_token by simp
  from Cons.prems have k: "list_all (keeps_token S) es" by simp
  from Cons.IH [OF h k] obtain new where
    n: "holds_token S (run es (handle e st))"
       "fetched (run es (handle e st)) = fetched (handle e st) @ new"
       "list_all (sends_token (to_usv S)) new"
    by blast
  from handle_fetched_token [OF assms Cons.prems(1), of e]
  show ?case
  proof
    assume "fetched (handle e st) = fetched st"
    with n show ?thesis by simp
  next
    assume "\<exists>r. fetched (handle e st) = fetched st @ [r] \<and> sends_token (to_usv S) r"
    then obtain r where "fetched (handle e st) = fetched st @ [r]" "sends_token (to_usv S) r" by blast
    with n have "fetched (run es (handle e st)) = fetched st @ (r # new)"
      "list_all (sends_token (to_usv S)) (r # new)" by simp_all
    with n(1) show ?thesis unfolding run.simps by blast
  qed
qed

lemma first_reply_body:
  "json_body first_reply =
     Some \<lparr>response = utf16 ''Hello'', session_id = Str (utf16 ''abc123''),
           timestamp = Undefined\<rparr>"
  by (simp add: first_reply_def)

lemma count_typing_remove1:
  "count_list (remove1 TypingDiv ns) TypingDiv = count_list ns TypingDiv - 1"
  by (induction ns) auto

subsection \<open>Only non-empty tokens\<close>

lemma submit_handler_nonempty_tokens:
  "nonempty_tokens st \<Longrightarrow> nonempty_tokens (submit_handler clock st)"
proof -
  assume a: "nonempty_tokens st"
  have t: "truthy (sessionId st) \<Longrightarrow> to_usv (to_jstring (sessionId st)) \<noteq> []"
    using truthy_Str [of "sessionId st"] by (auto simp: to_usv_Nil_iff)
  from submit_handler_fetched [of clock st] submit_handler_token [of clock st] a t
  show ?thesis
    by (auto simp: nonempty_tokens_def no_empty_token_def session_entries_def
        session_id_field_distinct)
qed

lemma handle_nonempty_tokens:
  assumes "nonempty_tokens st"
  shows "nonempty_tokens (handle e st)"
proof (cases e)
  case (PageLoad ms i)
  with assms show ?thesis by (simp add: nonempty_tokens_def DOMContentLoaded_def)
next
  case (Input v h)
  with assms show ?thesis by (simp add: nonempty_tokens_def input_listeners_def)
next
  case (Submit c)
  with assms show ?thesis by (simp add: submit_handler_nonempty_tokens)
next
  case (KeyDown k sh c)
  with assms show ?thesis by (simp add: keydown_listener_def submit_handler_nonempty_tokens)
next
  case (QuickQuestion q c)
  have "nonempty_tokens (st\<lparr>userInput_value := (case q of None \<Rightarrow> [] | Some p \<Rightarrow> p)\<rparr>)"
    using assms by (simp add: nonempty_tokens_def)
  with QuickQuestion show ?thesis
    by (simp add: quick_question_click_def submit_handler_nonempty_tokens)
next
  case (FetchSettled outcome c)
  show ?thesis
  proof (cases "in_flight st = 0")
    case True
    with FetchSettled assms show ?thesis by simp
  next
    case False
    let ?s = "st\<lparr>in_flight := in_flight st - 1\<rparr>"
    from fetch_settled_token [of outcome c ?s] fetch_settled_fetched [of outcome c ?s]
      FetchSettled assms False
    show ?thesis
      by (auto simp: nonempty_tokens_def)
  qed
qed

lemma run_nonempty_tokens: "nonempty_tokens st \<Longrightarrow> nonempty_tokens (run es st)"
  by (induction es arbitrary: st) (simp_all add: handle_nonempty_tokens)

subsection \<open>Variable and storage\<close>

lemma DOMContentLoaded_agree:
  "localStorage st chatSessionId \<noteq> Some [] \<Longrightarrow> sane_storage (DOMContentLoaded st)"
  by (cases "localStorage st chatSessionId")
     (simp_all add: sane_storage_def agree_def DOMContentLoaded_def)

lemma sane_storage_frame:
  "sessionId st' = sessionId st \<Longrightarrow> localStorage st' = localStorage st \<Longrightarrow>
   sane_storage st \<Longrightarrow> sane_storage st'"
  by (simp add: sane_storage_def agree_def split: jsval.splits)

lemma submit_handler_sane: "sane_storage st \<Longrightarrow> sane_storage (submit_handler clock st)"
  using submit_handler_token [of clock st] sane_storage_frame by blast

lemma handle_sane:
  assumes "sane_storage st"
  shows "sane_storage (handle e st)"
proof (cases e)
  case (PageLoad ms i)
  have "localStorage (st\<lparr>userInput_value := i, userInput_height := Unset,
           chatMessages := ms, in_flight := 0\<rparr>) chatSessionId \<noteq> Some []"
    using assms by (simp add: sane_storage_def)
  then show ?thesis
    unfolding PageLoad handle.simps by (rule DOMContentLoaded_agree)
next
  case (Input v h)
  have "sane_storage (input_listeners h (st\<lparr>userInput_value := v\<rparr>))"
    using assms by (rule sane_storage_frame [rotated 2]) (simp_all add: input_listeners_def)
  with Input show ?thesis by simp
next
  case (Submit c)
  with assms show ?thesis by (simp add: submit_handler_sane)
next
  case (KeyDown k sh c)
  with assms show ?thesis by (simp add: keydown_listener_def submit_handler_sane)
next
  case (QuickQuestion q c)
  have "sane_storage (st\<lparr>userInput_value := (case q of None \<Rightarrow> [] | Some p \<Rightarrow> p)\<rparr>)"
    using assms by (rule sane_storage_frame [rotated 2]) simp_all
  with QuickQuestion show ?thesis
    by (simp add: quick_question_click_def submit_handler_sane)
next
  case (FetchSettled outcome c)
  show ?thesis
  proof (cases "in_flight st = 0")
    case True
    with FetchSettled assms show ?thesis by simp
  next
    case False
    let ?s = "st\<lparr>in_flight := in_flight st - 1\<rparr>"
    have s: "sane_storage ?s"
      using assms by (rule sane_storage_frame [rotated 2]) simp_all
    from fetch_settled_token [of outcome c ?s]
    have "sane_storage (fetch_settled outcome c ?s)"
    proof
      assume "sessionId (fetch_settled outcome c ?s) = sessionId ?s \<and>
        localStorage (fetch_settled outcome c ?s) = localStorage ?s \<and>
        \<not> truthy (issued_token (FetchSettled outcome c))"
      with s sane_storage_frame show ?thesis by blast
    next
      assume "\<exists>s. s \<noteq> [] \<and> issued_token (FetchSettled outcome c) = Str s \<and>
        sessionId (fetch_settled outcome c ?s) = Str s \<and>
        localStorage (fetch_settled outcome c ?s) = (localStorage ?s)(chatSessionId \<mapsto> s)"
      then show ?thesis by (auto simp: sane_storage_def agree_def)
    qed
    with FetchSettled False show ?thesis by simp
  qed
qed

lemma run_sane: "sane_storage st \<Longrightarrow> sane_storage (run es st)"
  by (induction es arbitrary: st) (simp_all add: handle_sane)

lemma handle_paired_write:
  "(sessionId (handle e st) = sessionId st \<and> localStorage (handle e st) = localStorage st)
   \<or> (is_page_load e \<and> localStorage (handle e st) = localStorage st)
   \<or> (\<exists>s. sessionId (handle e st) = Str s \<and>
           localStorage (handle e st) = (localStorage st)(chatSessionId \<mapsto> s))"
proof (cases e)
  case (PageLoad ms i)
  then show ?thesis by (simp add: DOMContentLoaded_def)
next
  case (Input v h)
  then show ?thesis by (simp add: input_listeners_def)
next
  case (Submit c)
  then show ?thesis by (simp add: submit_handler_token)
next
  case (KeyDown k sh c)
  then show ?thesis by (simp add: keydown_listener_def submit_handler_token)
next
  case (QuickQuestion q c)
  then show ?thesis by (simp add: quick_question_click_def submit_handler_token)
next
  case (FetchSettled outcome c)
  show ?thesis
  proof (cases "in_flight st = 0")
    case True
    with FetchSettled show ?thesis by simp
  next
    case False
    let ?s = "st\<lparr>in_flight := in_flight st - 1\<rparr>"
    from fetch_settled_token [of outcome c ?s] FetchSettled False
    show ?thesis by auto
  qed
qed

section \<open>The properties\<close>

subsection \<open>Empty input\<close>

text \<open>
  C3. When the text area is empty or holds only white space, the submit listener does
  nothing at all: the state after it is the state before it, so no bubble is appended,
  no request is sent, and the session token and the text area are as they were. This
  holds for the listener itself, for a submit event and for the Enter key.
\<close>

theorem submit_whitespace_is_noop:
  assumes "list_all is_white_space (userInput_value st)"
  shows "submit_handler clock st = st
    \<and> handle (Submit clock) st = st
    \<and> handle (KeyDown (utf16 ''Enter'') False clock) st = st"
  using assms by (simp add: trim_empty_iff submit_handler_empty keydown_listener_def)

theorem submit_whitespace_is_noop_witness:
  "list_all is_white_space (userInput_value whitespace_state)
   \<and> submit_handler (utf16 ''10:00 AM'') whitespace_state = whitespace_state
   \<and> handle (Submit (utf16 ''10:00 AM'')) whitespace_state = whitespace_state
   \<and> handle (KeyDown (utf16 ''Enter'') False (utf16 ''10:00 AM'')) whitespace_state
       = whitespace_state"
proof -
  have h: "list_all is_white_space (userInput_value whitespace_state)"
    by (simp add: whitespace_state_eq utf16_def is_white_space_def)
  show ?thesis
    using h submit_whitespace_is_noop [OF h, of "utf16 ''10:00 AM''"] by simp
qed

subsection \<open>The user's bubble\<close>

text \<open>
  C4. When the text area holds something after trimming, a submit event appends one
  user bubble whose text is the trimmed input, shown literally, followed by the typing
  indicator; this is the state in which the request is still pending. However the
  request then settles, the user bubbles of the page are the old ones followed by
  exactly this one.
\<close>

theorem submit_appends_user_bubble:
  assumes "trim (userInput_value st) \<noteq> []"
  shows "chatMessages (handle (Submit clock) st) =
           chatMessages st @
             [MessageDiv User BustInSilhouette (TextContent (trim (userInput_value st))) clock,
              TypingDiv]
    \<and> in_flight (handle (Submit clock) st) = Suc (in_flight st)
    \<and> filter is_user_bubble
          (chatMessages (handle (FetchSettled outcome clock') (handle (Submit clock) st))) =
        filter is_user_bubble (chatMessages st) @
          [MessageDiv User BustInSilhouette (TextContent (trim (userInput_value st))) clock]"
proof -
  let ?st' = "handle (Submit clock) st"
  have a: "chatMessages ?st' = chatMessages st @
             [MessageDiv User BustInSilhouette (TextContent (trim (userInput_value st))) clock,
              TypingDiv]"
    using assms by (simp add: submit_handler_nonempty)
  have b: "in_flight ?st' = Suc (in_flight st)"
    using assms by (simp add: submit_handler_nonempty)
  obtain t c where
    "chatMessages (fetch_settled outcome clock' (?st'\<lparr>in_flight := in_flight ?st' - 1\<rparr>)) =
       remove1 TypingDiv (chatMessages (?st'\<lparr>in_flight := in_flight ?st' - 1\<rparr>)) @
         [MessageDiv Bot Seedling (InnerHTML (MarkedParse t)) c]"
    using chatMessages_fetch_settled by blast
  then have "filter is_user_bubble
      (chatMessages (handle (FetchSettled outcome clock') ?st')) =
      filter is_user_bubble (chatMessages ?st')"
    using b by (simp add: filter_user_remove1_typing)
  with a b show ?thesis by simp
qed

theorem submit_appends_user_bubble_witness:
  "trim (userInput_value greeting_state) \<noteq> []
   \<and> chatMessages (handle (Submit (utf16 ''10:00 AM'')) greeting_state) =
       [MessageDiv User BustInSilhouette (TextContent (utf16 ''hi'')) (utf16 ''10:00 AM''),
        TypingDiv]
   \<and> filter is_user_bubble
        (chatMessages (handle (FetchSettled Rejected (utf16 ''10:01 AM''))
           (handle (Submit (utf16 ''10:00 AM'')) greeting_state))) =
       [MessageDiv User BustInSilhouette (TextContent (utf16 ''hi'')) (utf16 ''10:00 AM'')]"
proof -
  have v: "userInput_value greeting_state = utf16 '' hi ''"
    and m: "chatMessages greeting_state = []"
    by (simp_all add: greeting_state_eq)
  have h: "trim (userInput_value greeting_state) \<noteq> []"
    by (simp add: v trim_hi utf16_nonempty)
  show ?thesis
    using h submit_appends_user_bubble [OF h, of "utf16 ''10:00 AM''" Rejected "utf16 ''10:01 AM''"]
    by (simp add: v m trim_hi del: handle.simps)
qed

subsection \<open>Literal text and markup\<close>

text \<open>
  C5. \<open>addMessage\<close> inserts the text of a user bubble through \<open>textContent\<close> and the
  text of a bot bubble through \<open>innerHTML\<close>, after \<open>marked.parse\<close>. If every bubble
  of the page is rendered as fits its sender, this is still so after any event other
  than a page load. The part of the submit listener that reads the text area, also when
  a quick question fills it, adds nothing to the markup of the page. The markup added when a request settles is that of
  the server's \<open>response\<close> or of the fixed apology, and the continuation does not
  depend on the content of the text area.
\<close>

theorem user_text_literal_bot_text_markup:
  "chatMessages (addMessage text User ts clock st) =
     chatMessages st @ [MessageDiv User BustInSilhouette (TextContent text)
                          (if truthy ts then to_jstring ts else clock)]
   \<and> chatMessages (addMessage text Bot ts clock st) =
     chatMessages st @ [MessageDiv Bot Seedling (InnerHTML (MarkedParse text))
                          (if truthy ts then to_jstring ts else clock)]
   \<and> (list_all well_rendered (chatMessages st) \<and> \<not> is_page_load e \<longrightarrow>
        list_all well_rendered (chatMessages (handle e st)))
   \<and> markup_of (chatMessages (submit_handler clock st)) = markup_of (chatMessages st)
   \<and> markup_of (chatMessages (quick_question_click question clock st)) =
       markup_of (chatMessages st)
   \<and> markup_of (chatMessages (fetch_settled outcome clock st)) =
       markup_of (chatMessages st) @
         [MarkedParse (case outcome of
                         Rejected \<Rightarrow> apology
                       | Resolved r \<Rightarrow>
                           (case json_body r of None \<Rightarrow> apology | Some d \<Rightarrow> response d))]
   \<and> fetch_settled outcome clock (st\<lparr>userInput_value := v\<rparr>) =
       (fetch_settled outcome clock st)\<lparr>userInput_value := v\<rparr>"
proof -
  have sub: "markup_of (chatMessages (submit_handler c s)) = markup_of (chatMessages s)" for c s
    by (cases "trim (userInput_value s) = []")
       (simp_all add: submit_handler_empty submit_handler_nonempty markup_of_append)
  have quick: "markup_of (chatMessages (quick_question_click question clock st)) =
       markup_of (chatMessages st)"
    by (simp add: quick_question_click_def sub)
  have settled: "markup_of (chatMessages (fetch_settled outcome clock st)) =
       markup_of (chatMessages st) @
         [MarkedParse (case outcome of
                         Rejected \<Rightarrow> apology
                       | Resolved r \<Rightarrow>
                           (case json_body r of None \<Rightarrow> apology | Some d \<Rightarrow> response d))]"
    by (cases outcome; cases "json_body (case outcome of Resolved r \<Rightarrow> r)")
       (simp_all add: fetch_settled_rejected fetch_settled_malformed fetch_settled_data
          markup_of_append markup_of_remove1_typing)
  have frame: "fetch_settled outcome clock (st\<lparr>userInput_value := v\<rparr>) =
       (fetch_settled outcome clock st)\<lparr>userInput_value := v\<rparr>"
    by (cases outcome; cases "json_body (case outcome of Resolved r \<Rightarrow> r)")
       (simp_all add: fetch_settled_rejected fetch_settled_malformed fetch_settled_data)
  show ?thesis
    using sub [of clock st] quick settled frame handle_well_rendered [of st e]
    by (simp add: addMessage_def del: handle.simps)
qed

theorem user_text_literal_bot_text_markup_witness:
  "list_all well_rendered (chatMessages pending_state)
   \<and> \<not> is_page_load (FetchSettled (Resolved first_reply) (utf16 ''10:01 AM''))
   \<and> list_all well_rendered (chatMessages session_state)
   \<and> markup_of (chatMessages session_state) = [MarkedParse (utf16 ''Hello'')]"
proof -
  have h: "list_all well_rendered (chatMessages pending_state)"
    by (simp add: pending_state_eq)
  have m: "markup_of (chatMessages session_state) = [MarkedParse (utf16 ''Hello'')]"
    by (simp add: session_state_eq)
  from h user_text_literal_bot_text_markup
    [where st = pending_state
       and e = "FetchSettled (Resolved first_reply) (utf16 ''10:01 AM'')"]
  have "list_all well_rendered
    (chatMessages (handle (FetchSettled (Resolved first_reply) (utf16 ''10:01 AM''))
       pending_state))"
    by simp
  with h m show ?thesis
    by (simp add: session_state_def del: handle.simps)
qed

subsection \<open>Quick questions\<close>

text \<open>
  C8. Clicking a quick-question button with preset text \<open>presetText\<close> gives the state
  that populating the input with \<open>presetText\<close> and then submitting gives, and so do
  all later events; the result does not depend on what the text area held before.
\<close>

theorem quick_question_is_populate_then_submit:
  "handle (QuickQuestion (Some presetText) clock) st = quickSubmit presetText clock st
   \<and> run (QuickQuestion (Some presetText) clock # es) st =
       run (Submit clock # es) (populate_input presetText st)
   \<and> handle (QuickQuestion (Some presetText) clock) (st\<lparr>userInput_value := v\<rparr>) =
       handle (QuickQuestion (Some presetText) clock) st"
  by (simp add: quick_question_click_def quickSubmit_def populate_input_def)

subsection \<open>A token issued by the server\<close>

text \<open>
  C1, as the code has it. If the response of the server carries a non-empty
  \<open>session_id\<close> \<open>S\<close>, then once the response is handled the variable \<open>sessionId\<close> is
  \<open>S\<close> and the storage holds \<open>S\<close> under \<open>chatSessionId\<close>. They stay so through all
  later events (page loads included) as long as no response carries a non-empty
  \<open>session_id\<close> other than \<open>S\<close>, and every request sent in that time has exactly one
  \<open>session_id\<close> entry, which is \<open>S\<close> as a scalar value string: \<open>S\<close> with every
  unpaired surrogate replaced by U+FFFD, and so \<open>S\<close> itself when it has none.
\<close>

theorem issued_token_is_stored_and_sent:
  assumes "json_body r = Some d" and "session_id d = Str S" and "S \<noteq> []"
    and "list_all (keeps_token S) es"
  shows "sessionId (fetch_settled (Resolved r) clock st) = Str S
    \<and> localStorage (fetch_settled (Resolved r) clock st) chatSessionId = Some S
    \<and> sessionId (run es (fetch_settled (Resolved r) clock st)) = Str S
    \<and> localStorage (run es (fetch_settled (Resolved r) clock st)) chatSessionId = Some S
    \<and> take (length (fetched st)) (fetched (run es (fetch_settled (Resolved r) clock st))) =
        fetched st
    \<and> list_all (sends_token (to_usv S))
        (drop (length (fetched st)) (fetched (run es (fetch_settled (Resolved r) clock st))))
    \<and> (no_lone_surrogate S \<longrightarrow>
        list_all (sends_token S)
          (drop (length (fetched st))
             (fetched (run es (fetch_settled (Resolved r) clock st)))))"
proof -
  let ?st' = "fetch_settled (Resolved r) clock st"
  have h: "holds_token S ?st'"
    using assms(1-3) by (simp add: fetch_settled_data holds_token_def)
  have f: "fetched ?st' = fetched st"
    by (simp add: fetch_settled_fetched)
  from run_holds_token [OF assms(3) h assms(4)] obtain new where
    n: "holds_token S (run es ?st')" "fetched (run es ?st') = fetched st @ new"
    "list_all (sends_token (to_usv S)) new"
    using f by auto
  have "list_all (sends_token S) new" if "no_lone_surrogate S"
    using n(3) that by (simp add: to_usv_no_lone_surrogate)
  with h n show ?thesis by (simp add: holds_token_def)
qed

theorem issued_token_is_stored_and_sent_witness:
  "json_body first_reply =
     Some \<lparr>response = utf16 ''Hello'', session_id = Str (utf16 ''abc123''),
           timestamp = Undefined\<rparr>
   \<and> utf16 ''abc123'' \<noteq> []
   \<and> list_all (keeps_token (utf16 ''abc123''))
        [Input (utf16 ''more'') 24, Submit (utf16 ''10:02 AM''),
         FetchSettled Rejected (utf16 ''10:03 AM'')]
   \<and> no_lone_surrogate (utf16 ''abc123'')
   \<and> sessionId (run [Input (utf16 ''more'') 24, Submit (utf16 ''10:02 AM''),
                      FetchSettled Rejected (utf16 ''10:03 AM'')]
                 (fetch_settled (Resolved first_reply) (utf16 ''10:01 AM'') pending_state))
       = Str (utf16 ''abc123'')
   \<and> localStorage (fetch_settled (Resolved first_reply) (utf16 ''10:01 AM'') pending_state)
        chatSessionId = Some (utf16 ''abc123'')
   \<and> list_all (sends_token (utf16 ''abc123''))
        (drop (length (fetched pending_state))
           (fetched (run [Input (utf16 ''more'') 24, Submit (utf16 ''10:02 AM''),
                          FetchSettled Rejected (utf16 ''10:03 AM'')]
              (fetch_settled (Resolved first_reply) (utf16 ''10:01 AM'') pending_state))))"
proof -
  have h2: "session_id \<lparr>response = utf16 ''Hello'', session_id = Str (utf16 ''abc123''),
           timestamp = Undefined\<rparr> = Str (utf16 ''abc123'')"
    by simp
  have h3: "utf16 ''abc123'' \<noteq> []"
    by (simp add: utf16_nonempty)
  have h4: "list_all (keeps_token (utf16 ''abc123''))
        [Input (utf16 ''more'') 24, Submit (utf16 ''10:02 AM''),
         FetchSettled Rejected (utf16 ''10:03 AM'')]"
    by (simp add: keeps_token_def)
  show ?thesis
    using first_reply_body h3 h4 no_lone_surrogate_abc123
      issued_token_is_stored_and_sent [OF first_reply_body h2 h3 h4, of "utf16 ''10:01 AM''"
        pending_state]
    by blast
qed

text \<open>
  C1, as it is stated, fails for the empty string: a response whose \<open>session_id\<close> is
  \<open>""\<close> leaves the variable \<open>null\<close> and the storage without entry, and the next
  request carries no \<open>session_id\<close>. It also fails for a token with an unpaired
  surrogate: the token U+D800 \<open>a\<close> is stored as it is, and the next request carries
  U+FFFD \<open>a\<close>.
\<close>

theorem session_id_empty_or_lone_surrogate_counterexample:
  "json_body reply_with_empty_token =
     Some \<lparr>response = utf16 ''Hello'', session_id = Str [], timestamp = Undefined\<rparr>
   \<and> sessionId (handle (FetchSettled (Resolved reply_with_empty_token) (utf16 ''10:01 AM''))
        pending_state) = Null
   \<and> localStorage (handle (FetchSettled (Resolved reply_with_empty_token) (utf16 ''10:01 AM''))
        pending_state) chatSessionId = None
   \<and> body (last (fetched (run [FetchSettled (Resolved reply_with_empty_token) (utf16 ''10:01 AM''),
                      Input (utf16 ''more'') 24, Submit (utf16 ''10:02 AM'')] pending_state))) =
       [(utf16 ''user_input'', utf16 ''more'')]
   \<and> json_body reply_with_surrogate_token =
     Some \<lparr>response = utf16 ''Hello'', session_id = Str [55296, 97], timestamp = Undefined\<rparr>
   \<and> sessionId (handle (FetchSettled (Resolved reply_with_surrogate_token) (utf16 ''10:01 AM''))
        pending_state) = Str [55296, 97]
   \<and> body (last (fetched (run [FetchSettled (Resolved reply_with_surrogate_token)
                                  (utf16 ''10:01 AM''),
                      Input (utf16 ''more'') 24, Submit (utf16 ''10:02 AM'')] pending_state))) =
       [(utf16 ''user_input'', utf16 ''more''), (utf16 ''session_id'', [65533, 97])]
   \<and> [65533, 97] \<noteq> [55296, 97 :: nat]"
  by (simp add: reply_with_empty_token_def reply_with_surrogate_token_def pending_state_eq
      fetch_settled_data input_listeners_def submit_handler_nonempty trim_more utf16_nonempty
      to_usv_literals is_lead_surrogate_def is_trail_surrogate_def)

subsection \<open>Failed exchanges\<close>

text \<open>
  C2, as the code has it. When \<open>fetch\<close> rejects or the body is not valid JSON, whatever
  the status, the continuation changes the state in exactly this way: the first typing
  indicator is removed, one bot bubble with the fixed apology and the local time is
  appended, and the error is logged once. Nothing else changes; in particular no
  request is sent again. The result is a state for every outcome, and it is the same
  for both causes but for the logged error. Starting without typing indicator, a submit
  followed by such a failure leaves the old page, the user bubble and the apology.
\<close>

theorem failed_exchange_shows_apology:
  assumes "request_failed outcome"
  shows "fetch_settled outcome clock st =
           st\<lparr>chatMessages := remove1 TypingDiv (chatMessages st) @
                  [MessageDiv Bot Seedling (InnerHTML (MarkedParse apology)) clock],
              console_error := console_error st @ [thrown outcome]\<rparr>
    \<and> fetched (fetch_settled outcome clock st) = fetched st
    \<and> count_list (chatMessages (fetch_settled outcome clock st)) TypingDiv =
        count_list (chatMessages st) TypingDiv - 1
    \<and> (TypingDiv \<notin> set (chatMessages st) \<and> trim (userInput_value st) \<noteq> [] \<longrightarrow>
        chatMessages (run [Submit clock0, FetchSettled outcome clock] st) =
          chatMessages st @
            [MessageDiv User BustInSilhouette (TextContent (trim (userInput_value st))) clock0,
             MessageDiv Bot Seedling (InnerHTML (MarkedParse apology)) clock])"
proof -
  have eq: "fetch_settled outcome c s =
           s\<lparr>chatMessages := remove1 TypingDiv (chatMessages s) @
                  [MessageDiv Bot Seedling (InnerHTML (MarkedParse apology)) c],
              console_error := console_error s @ [thrown outcome]\<rparr>" for c s
  proof (cases outcome)
    case Rejected
    then show ?thesis by (simp add: fetch_settled_rejected)
  next
    case (Resolved r)
    with assms have "json_body r = None" by simp
    with Resolved show ?thesis by (simp add: fetch_settled_malformed)
  qed
  have cycle: "chatMessages (run [Submit clock0, FetchSettled outcome clock] st) =
          chatMessages st @
            [MessageDiv User BustInSilhouette (TextContent (trim (userInput_value st))) clock0,
             MessageDiv Bot Seedling (InnerHTML (MarkedParse apology)) clock]"
    if "TypingDiv \<notin> set (chatMessages st)" "trim (userInput_value st) \<noteq> []"
    using that by (simp add: eq submit_handler_nonempty remove1_append remove1_idem)
  show ?thesis
    using eq [of clock st] cycle by (simp add: count_typing_remove1 del: run.simps)
qed

theorem failed_exchange_shows_apology_witness:
  "request_failed (Resolved error_page)
   \<and> TypingDiv \<notin> set (chatMessages greeting_state)
   \<and> trim (userInput_value greeting_state) \<noteq> []
   \<and> chatMessages (run [Submit (utf16 ''10:00 AM''),
                         FetchSettled (Resolved error_page) (utf16 ''10:01 AM'')]
                    greeting_state) =
       [MessageDiv User BustInSilhouette (TextContent (utf16 ''hi'')) (utf16 ''10:00 AM''),
        MessageDiv Bot Seedling (InnerHTML (MarkedParse apology)) (utf16 ''10:01 AM'')]"
proof -
  have h: "request_failed (Resolved error_page)"
    by (simp add: error_page_def)
  have v: "userInput_value greeting_state = utf16 '' hi ''"
    and m: "chatMessages greeting_state = []"
    by (simp_all add: greeting_state_eq)
  show ?thesis
    using h failed_exchange_shows_apology
      [OF h, of "utf16 ''10:01 AM''" greeting_state "utf16 ''10:00 AM''"]
    by (simp add: v m trim_hi utf16_nonempty del: run.simps)
qed

text \<open>
  C2, as it is stated, fails for a status outside 2xx with a JSON body: the script never
  looks at the status, nothing is thrown, and the bubble shows the \<open>response\<close> of the
  body, not the apology.
\<close>

theorem non_2xx_with_json_body_counterexample:
  "non_2xx (status error_reply)
   \<and> chatMessages (handle (FetchSettled (Resolved error_reply) (utf16 ''10:01 AM''))
                     pending_state) =
       [MessageDiv User BustInSilhouette (TextContent (utf16 ''hi'')) (utf16 ''10:00 AM''),
        MessageDiv Bot Seedling (InnerHTML (MarkedParse (utf16 ''Internal Server Error'')))
          (utf16 ''10:01 AM'')]
   \<and> utf16 ''Internal Server Error'' \<noteq> apology
   \<and> console_error (handle (FetchSettled (Resolved error_reply) (utf16 ''10:01 AM''))
                     pending_state) = []"
  by (simp add: non_2xx_def error_reply_def pending_state_eq fetch_settled_data)
     (simp add: utf16_def apology_def)

subsection \<open>HTTP failures\<close>

text \<open>
  C6, as the code has it. When the server answers with a status outside 2xx and a body
  that is not valid JSON, the variable \<open>sessionId\<close> and the storage are unchanged, the
  first typing indicator is removed and the apology bubble is appended.
\<close>

theorem http_failure_without_json_keeps_token:
  assumes "non_2xx (status r)" and "json_body r = None"
  shows "sessionId (fetch_settled (Resolved r) clock st) = sessionId st
    \<and> localStorage (fetch_settled (Resolved r) clock st) = localStorage st
    \<and> chatMessages (fetch_settled (Resolved r) clock st) =
        remove1 TypingDiv (chatMessages st) @
          [MessageDiv Bot Seedling (InnerHTML (MarkedParse apology)) clock]
    \<and> count_list (chatMessages (fetch_settled (Resolved r) clock st)) TypingDiv =
        count_list (chatMessages st) TypingDiv - 1"
  using assms by (simp add: fetch_settled_malformed count_typing_remove1)

theorem http_failure_without_json_keeps_token_witness:
  "non_2xx (status error_page) \<and> json_body error_page = None
   \<and> sessionId (fetch_settled (Resolved error_page) (utf16 ''10:03 AM'')
        session_pending_state) = Str (utf16 ''abc123'')
   \<and> localStorage (fetch_settled (Resolved error_page) (utf16 ''10:03 AM'')
        session_pending_state) chatSessionId = Some (utf16 ''abc123'')
   \<and> count_list (chatMessages (fetch_settled (Resolved error_page) (utf16 ''10:03 AM'')
        session_pending_state)) TypingDiv = 0"
proof -
  have h1: "non_2xx (status error_page)" and h2: "json_body error_page = None"
    by (simp_all add: error_page_def non_2xx_def)
  have f: "sessionId session_pending_state = Str (utf16 ''abc123'')"
    "localStorage session_pending_state chatSessionId = Some (utf16 ''abc123'')"
    "count_list (chatMessages session_pending_state) TypingDiv = 1"
    by (simp_all add: session_pending_state_eq)
  show ?thesis
    using h1 h2 http_failure_without_json_keeps_token
      [OF h1 h2, of "utf16 ''10:03 AM''" session_pending_state]
    by (simp add: f)
qed

text \<open>
  C6, as it is stated, fails when the body of the failure is JSON with a \<open>session_id\<close>:
  the token \<open>abc123\<close> held in the variable and in the storage is replaced, and no
  apology is shown.
\<close>

theorem http_failure_changes_token_counterexample:
  "non_2xx (status error_reply_with_token)
   \<and> sessionId session_pending_state = Str (utf16 ''abc123'')
   \<and> localStorage session_pending_state chatSessionId = Some (utf16 ''abc123'')
   \<and> sessionId (handle (FetchSettled (Resolved error_reply_with_token) (utf16 ''10:03 AM''))
        session_pending_state) = Str (utf16 ''xyz789'')
   \<and> localStorage (handle (FetchSettled (Resolved error_reply_with_token) (utf16 ''10:03 AM''))
        session_pending_state) chatSessionId = Some (utf16 ''xyz789'')
   \<and> utf16 ''xyz789'' \<noteq> utf16 ''abc123''
   \<and> last (chatMessages (handle (FetchSettled (Resolved error_reply_with_token)
        (utf16 ''10:03 AM'')) session_pending_state)) \<noteq>
       MessageDiv Bot Seedling (InnerHTML (MarkedParse apology)) (utf16 ''10:03 AM'')"
  by (simp add: non_2xx_def error_reply_with_token_def session_pending_state_eq
        fetch_settled_data utf16_nonempty)
     (simp add: utf16_def apology_def)

subsection \<open>A response without token\<close>

text \<open>
  C7, as the code has it. When the response has no \<open>session_id\<close>, handling it leaves
  the variable \<open>sessionId\<close> and the storage as they were, and the request of the next
  submission carries the token that was held before the response, if one was held, as
  a scalar value string: with every unpaired surrogate replaced by U+FFFD, and so the
  token itself when it has none.
\<close>

theorem absent_session_id_keeps_token:
  assumes "json_body r = Some d" and "session_id d = Undefined" and "trim v \<noteq> []"
  shows "sessionId (fetch_settled (Resolved r) clock st) = sessionId st
    \<and> localStorage (fetch_settled (Resolved r) clock st) = localStorage st
    \<and> fetched (run [Input v scrollHeight, Submit clock'] (fetch_settled (Resolved r) clock st)) =
        fetched st @
          [\<lparr>url = utf16 ''/api/chat'', http_method = utf16 ''POST'',
            body = (utf16 ''user_input'', to_usv (trim v)) #
              (if truthy (sessionId st)
               then [(utf16 ''session_id'', to_usv (to_jstring (sessionId st)))] else [])\<rparr>]
    \<and> (truthy (sessionId st) \<and> no_lone_surrogate (to_jstring (sessionId st)) \<longrightarrow>
        sends_token (to_jstring (sessionId st))
          (last (fetched (run [Input v scrollHeight, Submit clock']
             (fetch_settled (Resolved r) clock st)))))"
  using assms
  by (simp add: fetch_settled_data input_listeners_def submit_handler_nonempty
      sends_token_def session_entries_def session_id_field_distinct to_usv_no_lone_surrogate)

theorem absent_session_id_keeps_token_witness:
  "json_body reply_without_token =
     Some \<lparr>response = utf16 ''Hello again'', session_id = Undefined,
           timestamp = Str (utf16 ''10:03 AM'')\<rparr>
   \<and> trim (utf16 ''more'') \<noteq> []
   \<and> truthy (sessionId session_pending_state)
   \<and> no_lone_surrogate (to_jstring (sessionId session_pending_state))
   \<and> sessionId (fetch_settled (Resolved reply_without_token) (utf16 ''10:04 AM'')
        session_pending_state) = Str (utf16 ''abc123'')
   \<and> localStorage (fetch_settled (Resolved reply_without_token) (utf16 ''10:04 AM'')
        session_pending_state) chatSessionId = Some (utf16 ''abc123'')
   \<and> sends_token (utf16 ''abc123'')
        (last (fetched (run [Input (utf16 ''more'') 24, Submit (utf16 ''10:05 AM'')]
           (fetch_settled (Resolved reply_without_token) (utf16 ''10:04 AM'')
              session_pending_state))))"
proof -
  have h1: "json_body reply_without_token =
     Some \<lparr>response = utf16 ''Hello again'', session_id = Undefined,
           timestamp = Str (utf16 ''10:03 AM'')\<rparr>"
    by (simp add: reply_without_token_def)
  have h2: "session_id \<lparr>response = utf16 ''Hello again'', session_id = Undefined,
           timestamp = Str (utf16 ''10:03 AM'')\<rparr> = Undefined"
    by simp
  have h3: "trim (utf16 ''more'') \<noteq> []"
    by (simp add: trim_more utf16_nonempty)
  have f: "sessionId session_pending_state = Str (utf16 ''abc123'')"
    "localStorage session_pending_state chatSessionId = Some (utf16 ''abc123'')"
    by (simp_all add: session_pending_state_eq)
  have h4: "truthy (sessionId session_pending_state)"
    and h5: "no_lone_surrogate (to_jstring (sessionId session_pending_state))"
    by (simp_all add: f utf16_nonempty no_lone_surrogate_abc123)
  note inst = absent_session_id_keeps_token
      [OF h1 h2 h3, of "utf16 ''10:04 AM''" session_pending_state 24 "utf16 ''10:05 AM''"]
  from inst have a: "sessionId (fetch_settled (Resolved reply_without_token)
      (utf16 ''10:04 AM'') session_pending_state) = sessionId session_pending_state"
    by blast
  from inst have b: "localStorage (fetch_settled (Resolved reply_without_token)
      (utf16 ''10:04 AM'') session_pending_state) = localStorage session_pending_state"
    by blast
  from inst h4 h5 have c: "sends_token (to_jstring (sessionId session_pending_state))
      (last (fetched (run [Input (utf16 ''more'') 24, Submit (utf16 ''10:05 AM'')]
         (fetch_settled (Resolved reply_without_token) (utf16 ''10:04 AM'')
            session_pending_state))))"
    by blast
  show ?thesis
    using h1 h3 h4 h5 a b c by (simp add: f del: run.simps)
qed

text \<open>
  C7, as it is stated, fails for a held token with an unpaired surrogate: with the
  token U+D800 \<open>a\<close> held, a response without \<open>session_id\<close> leaves it held, and the
  next request carries U+FFFD \<open>a\<close>, which is not that token.
\<close>

theorem held_lone_surrogate_token_counterexample:
  "json_body reply_without_token =
     Some \<lparr>response = utf16 ''Hello again'', session_id = Undefined,
           timestamp = Str (utf16 ''10:03 AM'')\<rparr>
   \<and> sessionId surrogate_session_state = Str [55296, 97]
   \<and> sessionId (run [Input (utf16 ''more'') 24, Submit (utf16 ''10:02 AM''),
                      FetchSettled (Resolved reply_without_token) (utf16 ''10:04 AM'')]
                 surrogate_session_state) = Str [55296, 97]
   \<and> localStorage (run [Input (utf16 ''more'') 24, Submit (utf16 ''10:02 AM''),
                      FetchSettled (Resolved reply_without_token) (utf16 ''10:04 AM'')]
                 surrogate_session_state) chatSessionId = Some [55296, 97]
   \<and> body (last (fetched (run [Input (utf16 ''more'') 24, Submit (utf16 ''10:02 AM''),
                      FetchSettled (Resolved reply_without_token) (utf16 ''10:04 AM''),
                      Input (utf16 ''more'') 24, Submit (utf16 ''10:05 AM'')]
                 surrogate_session_state))) =
       [(utf16 ''user_input'', utf16 ''more''), (utf16 ''session_id'', [65533, 97])]
   \<and> [65533, 97] \<noteq> [55296, 97 :: nat]"
  by (simp add: reply_without_token_def surrogate_session_state_eq fetch_settled_data
      input_listeners_def submit_handler_nonempty trim_more utf16_nonempty
      to_usv_literals is_lead_surrogate_def is_trail_surrogate_def)

subsection \<open>The empty token\<close>

text \<open>
  C9. A response whose \<open>session_id\<close> is the empty string is handled exactly as the
  same response without \<open>session_id\<close>: the resulting states are equal, and the
  variable and the storage are unchanged. A held empty string is not sent: the request
  has the \<open>user_input\<close> entry only. In every run from a fresh browser the stored
  token is never the empty string and no request carries an empty \<open>session_id\<close>.
\<close>

theorem empty_session_id_is_like_absent:
  "fetch_settled (Resolved (r\<lparr>json_body := Some (d\<lparr>session_id := Str []\<rparr>)\<rparr>)) clock st =
     fetch_settled (Resolved (r\<lparr>json_body := Some (d\<lparr>session_id := Undefined\<rparr>)\<rparr>)) clock st
   \<and> sessionId (fetch_settled (Resolved (r\<lparr>json_body := Some (d\<lparr>session_id := Str []\<rparr>)\<rparr>))
        clock st) = sessionId st
   \<and> localStorage (fetch_settled (Resolved (r\<lparr>json_body := Some (d\<lparr>session_id := Str []\<rparr>)\<rparr>))
        clock st) = localStorage st
   \<and> (trim (userInput_value st) \<noteq> [] \<longrightarrow>
        fetched (submit_handler clock (st\<lparr>sessionId := Str []\<rparr>)) =
          fetched st @
            [\<lparr>url = utf16 ''/api/chat'', http_method = utf16 ''POST'',
              body = [(utf16 ''user_input'', to_usv (trim (userInput_value st)))]\<rparr>])
   \<and> localStorage (run es fresh_browser) chatSessionId \<noteq> Some []
   \<and> list_all no_empty_token (fetched (run es fresh_browser))"
proof -
  have "nonempty_tokens fresh_browser"
    by (simp add: nonempty_tokens_def fresh_browser_def)
  then have "nonempty_tokens (run es fresh_browser)"
    by (rule run_nonempty_tokens)
  then show ?thesis
    by (simp add: fetch_settled_data nonempty_tokens_def submit_handler_nonempty)
qed

theorem empty_session_id_is_like_absent_witness:
  "trim (userInput_value greeting_state) \<noteq> []
   \<and> fetched (submit_handler (utf16 ''10:00 AM'') (greeting_state\<lparr>sessionId := Str []\<rparr>)) =
       [\<lparr>url = utf16 ''/api/chat'', http_method = utf16 ''POST'',
         body = [(utf16 ''user_input'', utf16 ''hi'')]\<rparr>]
   \<and> localStorage (fetch_settled (Resolved reply_with_empty_token) (utf16 ''10:00 AM'')
        greeting_state) = localStorage greeting_state"
proof -
  have v: "userInput_value greeting_state = utf16 '' hi ''"
    and f: "fetched greeting_state = []"
    by (simp_all add: greeting_state_eq)
  have r: "reply_with_empty_token\<lparr>json_body :=
      Some (\<lparr>response = utf16 ''Hello'', session_id = Str [], timestamp = Undefined\<rparr>
            \<lparr>session_id := Str []\<rparr>)\<rparr> = reply_with_empty_token"
    by (simp add: reply_with_empty_token_def)
  have h: "trim (userInput_value greeting_state) \<noteq> []"
    by (simp add: v trim_hi utf16_nonempty)
  note inst = empty_session_id_is_like_absent
      [where r = reply_with_empty_token
         and d = "\<lparr>response = utf16 ''Hello'', session_id = Str [], timestamp = Undefined\<rparr>"
         and clock = "utf16 ''10:00 AM''" and st = greeting_state and es = "[]"]
  from inst have a: "localStorage (fetch_settled (Resolved reply_with_empty_token)
      (utf16 ''10:00 AM'') greeting_state) = localStorage greeting_state"
    unfolding r by blast
  from inst h have b: "fetched (submit_handler (utf16 ''10:00 AM'')
      (greeting_state\<lparr>sessionId := Str []\<rparr>)) =
      fetched greeting_state @
        [\<lparr>url = utf16 ''/api/chat'', http_method = utf16 ''POST'',
          body = [(utf16 ''user_input'', to_usv (trim (userInput_value greeting_state)))]\<rparr>]"
    by blast
  show ?thesis
    using h a b by (simp add: v f trim_hi to_usv_literals)
qed

subsection \<open>The variable mirrors the storage\<close>

text \<open>
  C10, as the code has it. When the page loads in a browser whose entry under
  \<open>chatSessionId\<close> is absent or a non-empty string, in particular in a fresh browser,
  then after the load and after every later event (submissions, their successful or
  failed settling, further page loads) the variable \<open>sessionId\<close> and the entry agree:
  the variable is \<open>null\<close> and there is no entry, or both are the same string. Every
  single event either leaves both as they were, or is a page load, which only
  initialises the variable, or writes the same string to both.
\<close>

theorem memory_and_storage_agree:
  "agree (run (PageLoad html_messages html_input # es) fresh_browser)
   \<and> (localStorage st0 chatSessionId \<noteq> Some [] \<longrightarrow>
        agree (run (PageLoad html_messages html_input # es) st0))
   \<and> ((sessionId (handle e st) = sessionId st \<and> localStorage (handle e st) = localStorage st)
      \<or> (is_page_load e \<and> localStorage (handle e st) = localStorage st)
      \<or> (\<exists>s. sessionId (handle e st) = Str s \<and>
              localStorage (handle e st) = (localStorage st)(chatSessionId \<mapsto> s)))"
proof -
  have loaded: "agree (run (PageLoad html_messages html_input # es) s)"
    if "localStorage s chatSessionId \<noteq> Some []" for s
  proof -
    from that have
      "localStorage (s\<lparr>userInput_value := html_input, userInput_height := Unset,
           chatMessages := html_messages, in_flight := 0\<rparr>) chatSessionId \<noteq> Some []"
      by simp
    then have "sane_storage (handle (PageLoad html_messages html_input) s)"
      unfolding handle.simps by (rule DOMContentLoaded_agree)
    then have "sane_storage (run es (handle (PageLoad html_messages html_input) s))"
      by (rule run_sane)
    then show ?thesis
      by (simp add: sane_storage_def del: handle.simps)
  qed
  have "localStorage fresh_browser chatSessionId \<noteq> Some []"
    by (simp add: fresh_browser_def)
  with loaded handle_paired_write [of e st] show ?thesis by blast
qed

theorem memory_and_storage_agree_witness:
  "localStorage session_state chatSessionId \<noteq> Some []
   \<and> agree (run [PageLoad [] [], Input (utf16 ''more'') 24, Submit (utf16 ''10:02 AM''),
                 FetchSettled (Resolved error_reply_with_token) (utf16 ''10:03 AM'')]
            session_state)"
proof -
  have h: "localStorage session_state chatSessionId \<noteq> Some []"
    by (simp add: session_state_eq utf16_nonempty)
  show ?thesis
    using h memory_and_storage_agree
      [where ?st0.0 = session_state and html_messages = "[]" and html_input = "[]"
         and es = "[Input (utf16 ''more'') 24, Submit (utf16 ''10:02 AM''),
                    FetchSettled (Resolved error_reply_with_token) (utf16 ''10:03 AM'')]"]
    by blast
qed

text \<open>
  C10, as it is stated, fails when the storage holds the empty string under
  \<open>chatSessionId\<close> at the time the page loads: the initialisation turns the empty
  string into \<open>null\<close> and leaves the entry, so the variable is \<open>null\<close> while the
  entry is a string, after the load and after a failed submission.
\<close>

theorem stale_empty_entry_counterexample:
  "localStorage stale_browser chatSessionId = Some []
   \<and> sessionId (run [PageLoad [] []] stale_browser) = Null
   \<and> localStorage (run [PageLoad [] []] stale_browser) chatSessionId = Some []
   \<and> \<not> agree (run [PageLoad [] []] stale_browser)
   \<and> \<not> agree (run [PageLoad [] [], Input (utf16 '' hi '') 24, Submit (utf16 ''10:00 AM''),
                    FetchSettled Rejected (utf16 ''10:01 AM'')] stale_browser)"
  by (simp add: stale_browser_def fresh_browser_def DOMContentLoaded_def agree_def
      input_listeners_def submit_handler_nonempty trim_hi utf16_nonempty
      fetch_settled_rejected)

end
